theory Spec2Isabelle
  imports Complex_Main
begin

section \<open>Python values\<close>

text \<open>
  The rule store receives untyped data in two places: the arguments of the pydantic
  validators of \<^verbatim>\<open>schemas/playbook.py\<close> (declared \<^verbatim>\<open>Any\<close>) and the JSON documents
  read by \<^verbatim>\<open>utils/playbook_validator.py\<close> and \<^verbatim>\<open>agents/curator.py\<close>. Both are
  modelled by \<open>pyval\<close>, the values \<^verbatim>\<open>json.load\<close> can produce. A dict is an association
  list whose first binding of a key is the effective one. A float is its exact value or
  one of the three special values of IEEE arithmetic. Strings are lists of characters
  with code points below 256.
\<close>

datatype pyfloat = Finite rat | PosInf | NegInf | NaN

datatype pyval =
    PNone
  | PBool bool
  | PInt int
  | PFloat pyfloat
  | PStr string
  | PList "pyval list"
  | PDict "(string \<times> pyval) list"

datatype error =
    AttributeError
  | TypeError
  | ValueError
  | OverflowError
  | ValidationError
  | FileNotFoundError
  | JSONDecodeError

text \<open>Comparison of floats: every comparison with NaN is false.\<close>

fun float_lt :: "pyfloat \<Rightarrow> pyfloat \<Rightarrow> bool" where
  "float_lt NaN _ = False"
| "float_lt _ NaN = False"
| "float_lt (Finite a) (Finite b) = (a < b)"
| "float_lt (Finite a) PosInf = True"
| "float_lt (Finite a) NegInf = False"
| "float_lt PosInf _ = False"
| "float_lt NegInf (Finite b) = True"
| "float_lt NegInf PosInf = True"
| "float_lt NegInf NegInf = False"

definition float_le :: "pyfloat \<Rightarrow> pyfloat \<Rightarrow> bool" where
  "float_le a b = (a \<noteq> NaN \<and> b \<noteq> NaN \<and> \<not> float_lt b a)"

text \<open>Truth value of a Python object, as \<^verbatim>\<open>if x:\<close> and \<^verbatim>\<open>x and y\<close> test it.\<close>

fun truthy :: "pyval \<Rightarrow> bool" where
  "truthy PNone = False"
| "truthy (PBool b) = b"
| "truthy (PInt n) = (n \<noteq> 0)"
| "truthy (PFloat f) = (f \<noteq> Finite 0)"
| "truthy (PStr s) = (s \<noteq> [])"
| "truthy (PList xs) = (xs \<noteq> [])"
| "truthy (PDict kvs) = (kvs \<noteq> [])"

text \<open>\<^verbatim>\<open>d.get(k)\<close>, \<^verbatim>\<open>k in d\<close> and \<^verbatim>\<open>d[k] = v\<close> on a dict.\<close>

definition dict_get :: "(string \<times> pyval) list \<Rightarrow> string \<Rightarrow> pyval" where
  "dict_get d k = (case map_of d k of None \<Rightarrow> PNone | Some v \<Rightarrow> v)"

definition dict_has :: "(string \<times> pyval) list \<Rightarrow> string \<Rightarrow> bool" where
  "dict_has d k = (map_of d k \<noteq> None)"

fun dict_set :: "(string \<times> pyval) list \<Rightarrow> string \<Rightarrow> pyval \<Rightarrow> (string \<times> pyval) list" where
  "dict_set [] k v = [(k, v)]"
| "dict_set ((k', v') # d) k v = (if k' = k then (k, v) # d else (k', v') # dict_set d k v)"

text \<open>\<^verbatim>\<open>x in [s1, ..., sn]\<close> and \<^verbatim>\<open>x in {s1, ..., sn}\<close> for strings \<open>si\<close>: a list compares with
  \<^verbatim>\<open>==\<close>, a set hashes first, and lists and dicts are unhashable.\<close>

definition in_str_list :: "pyval \<Rightarrow> string list \<Rightarrow> bool" where
  "in_str_list v xs = (case v of PStr s \<Rightarrow> s \<in> set xs | _ \<Rightarrow> False)"

definition in_str_set :: "pyval \<Rightarrow> string list \<Rightarrow> error + bool" where
  "in_str_set v xs =
     (case v of
        PStr s \<Rightarrow> Inr (s \<in> set xs)
      | PList _ \<Rightarrow> Inl TypeError
      | PDict _ \<Rightarrow> Inl TypeError
      | _ \<Rightarrow> Inr False)"

subsection \<open>Strings and numbers\<close>

text \<open>
  \<^verbatim>\<open>str.lower\<close> on code points below 256, the substring test \<^verbatim>\<open>a in b\<close>, and the
  white space that \<^verbatim>\<open>int\<close> strips.
\<close>

definition lower_char :: "char \<Rightarrow> char" where
  "lower_char c =
     (let n = (of_char c :: nat)
      in if (65 \<le> n \<and> n \<le> 90) \<or> (192 \<le> n \<and> n \<le> 222 \<and> n \<noteq> 215)
         then char_of (n + 32) else c)"

definition lower :: "string \<Rightarrow> string" where
  "lower s = map lower_char s"

fun starts_with :: "string \<Rightarrow> string \<Rightarrow> bool" where
  "starts_with s [] = True"
| "starts_with [] (p # ps) = False"
| "starts_with (c # cs) (p # ps) = (c = p \<and> starts_with cs ps)"

fun contains :: "string \<Rightarrow> string \<Rightarrow> bool" where
  "contains [] sub = (sub = [])"
| "contains (c # cs) sub = (starts_with (c # cs) sub \<or> contains cs sub)"

definition is_space :: "char \<Rightarrow> bool" where
  "is_space c =
     (let n = (of_char c :: nat)
      in (9 \<le> n \<and> n \<le> 13) \<or> (28 \<le> n \<and> n \<le> 32) \<or> n = 133 \<or> n = 160)"

definition strip :: "string \<Rightarrow> string" where
  "strip s = rev (dropWhile is_space (rev (dropWhile is_space s)))"

definition is_digit :: "char \<Rightarrow> bool" where
  "is_digit c = (let n = (of_char c :: nat) in 48 \<le> n \<and> n \<le> 57)"

definition digit_val :: "char \<Rightarrow> nat" where
  "digit_val c = of_char c - 48"

text \<open>
  \<^verbatim>\<open>int(s)\<close> for a string: white space around, an optional sign, then decimal digits
  in which single underscores may separate digits. \<open>None\<close> is ValueError. The
  interpreter's configurable limit on the number of digits is not modelled.
\<close>

fun int_digits :: "string \<Rightarrow> bool \<Rightarrow> nat \<Rightarrow> nat option" where
  "int_digits [] after_digit acc = (if after_digit then Some acc else None)"
| "int_digits (c # cs) after_digit acc =
     (if is_digit c then int_digits cs True (acc * 10 + digit_val c)
      else if c = CHR ''_'' \<and> after_digit \<and> cs \<noteq> [] then int_digits cs False acc
      else None)"

definition int_of_str :: "string \<Rightarrow> int option" where
  "int_of_str s =
     (case strip s of
        [] \<Rightarrow> None
      | c # cs \<Rightarrow>
          if c = CHR ''-'' then map_option (\<lambda>n. - int n) (int_digits cs False 0)
          else if c = CHR ''+'' then map_option int (int_digits cs False 0)
          else map_option int (int_digits (c # cs) False 0))"

text \<open>\<^verbatim>\<open>str(n)\<close> for an integer, as an f-string formats it.\<close>

fun str_of_nat :: "nat \<Rightarrow> string" where
  "str_of_nat n =
     (if n < 10 then [char_of (48 + n)]
      else str_of_nat (n div 10) @ [char_of (48 + n mod 10)])"

definition str_of_int :: "int \<Rightarrow> string" where
  "str_of_int i = (if i < 0 then CHR ''-'' # str_of_nat (nat (- i)) else str_of_nat (nat i))"

text \<open>
  \<^verbatim>\<open>float(n)\<close> for an integer rounds to 53 significant bits, ties to even, and raises
  OverflowError when the rounded magnitude reaches \<open>2 ^ 1024\<close>.
\<close>

fun bit_length :: "nat \<Rightarrow> nat" where
  "bit_length n = (if n = 0 then 0 else Suc (bit_length (n div 2)))"

definition round_53 :: "nat \<Rightarrow> nat" where
  "round_53 a =
     (if bit_length a \<le> 53 then a
      else let e = bit_length a - 53; q = a div 2 ^ e; r = a mod 2 ^ e; half = 2 ^ (e - 1)
           in (if r > half \<or> (r = half \<and> odd q) then q + 1 else q) * 2 ^ e)"

definition int_to_float :: "int \<Rightarrow> error + pyfloat" where
  "int_to_float n =
     (let m = round_53 (nat \<bar>n\<bar>)
      in if m \<ge> 2 ^ 1024 then Inl OverflowError
         else Inr (Finite (if n < 0 then - of_nat m else of_nat m)))"

text \<open>
  \<^verbatim>\<open>float(v)\<close> and \<^verbatim>\<open>int(v)\<close> on any value. Parsing a string as a float is the work of
  the interpreter and is the parameter \<open>fos\<close>, \<open>None\<close> for ValueError.
\<close>

definition py_float :: "(string \<Rightarrow> pyfloat option) \<Rightarrow> pyval \<Rightarrow> error + pyfloat" where
  "py_float fos v =
     (case v of
        PNone \<Rightarrow> Inl TypeError
      | PBool b \<Rightarrow> Inr (Finite (if b then 1 else 0))
      | PInt n \<Rightarrow> int_to_float n
      | PFloat f \<Rightarrow> Inr f
      | PStr s \<Rightarrow> (case fos s of None \<Rightarrow> Inl ValueError | Some f \<Rightarrow> Inr f)
      | PList _ \<Rightarrow> Inl TypeError
      | PDict _ \<Rightarrow> Inl TypeError)"

definition truncate :: "rat \<Rightarrow> int" where
  "truncate q = (if q < 0 then \<lceil>q\<rceil> else \<lfloor>q\<rfloor>)"

definition py_int :: "pyval \<Rightarrow> error + int" where
  "py_int v =
     (case v of
        PNone \<Rightarrow> Inl TypeError
      | PBool b \<Rightarrow> Inr (if b then 1 else 0)
      | PInt n \<Rightarrow> Inr n
      | PFloat f \<Rightarrow>
          (case f of
             Finite q \<Rightarrow> Inr (truncate q)
           | PosInf \<Rightarrow> Inl OverflowError
           | NegInf \<Rightarrow> Inl OverflowError
           | NaN \<Rightarrow> Inl ValueError)
      | PStr s \<Rightarrow> (case int_of_str s of None \<Rightarrow> Inl ValueError | Some n \<Rightarrow> Inr n)
      | PList _ \<Rightarrow> Inl TypeError
      | PDict _ \<Rightarrow> Inl TypeError)"

section \<open>Data model (schemas/playbook.py)\<close>

datatype memory = Detection | Trust

fun memory_name :: "memory \<Rightarrow> string" where
  "memory_name Detection = ''detection''"
| "memory_name Trust = ''trust''"

text \<open>Clock readings (\<^verbatim>\<open>datetime.now()\<close>) are natural numbers.\<close>

type_synonym datetime = nat

record rule =
  rule_id :: string
  rule_type :: string
  condition :: string
  rule_action :: string
  confidence :: pyfloat
  evidence_count :: int
  created_from :: "string option"
  created_at :: datetime
  parent_rule :: "string option"
  description :: string
  active :: bool
  memory_type :: "memory option"

record playbook =
  version :: string
  rules :: "rule list"
  last_updated :: datetime
  total_cases_processed :: int

datatype action = Add_rule | Update_rule | Deprecate_rule | Refine_rule | No_action

text \<open>
  \<^verbatim>\<open>update_fields\<close> is a dict from field names to values, written to the rule with
  \<^verbatim>\<open>setattr\<close>. An entry is modelled with the type the Rule class declares for the field
  it names; \<open>Set_other\<close> is an entry whose name is no field of Rule.
\<close>

datatype assignment =
    Set_rule_id string
  | Set_type string
  | Set_condition string
  | Set_action string
  | Set_confidence pyfloat
  | Set_evidence_count int
  | Set_created_from "string option"
  | Set_created_at datetime
  | Set_parent_rule "string option"
  | Set_description string
  | Set_active bool
  | Set_memory_type "memory option"
  | Set_other string pyval

record delta_update =
  action :: action
  target_rule_id :: "string option"
  new_rule :: "rule option"
  update_fields :: "assignment list option"
  reason :: string
  target_memory :: "memory option"

subsection \<open>Field validators of Rule\<close>

text \<open>
  The three validators run in mode \<^verbatim>\<open>before\<close>, on the raw input. An exception that
  leaves a validator is the error value; \<open>ValidationError\<close> is pydantic's own refusal.
\<close>

definition fix_evidence_count :: "pyval \<Rightarrow> error + int" where
  "fix_evidence_count v =
     (case v of
        PStr s \<Rightarrow>
          if contains (lower s) ''original value + 1'' \<or> CHR ''+'' \<in> set s then Inr 1
          else (case py_int (PStr s) of
                  Inl ValueError \<Rightarrow> Inr 1
                | r \<Rightarrow> r)
      | _ \<Rightarrow> py_int v)"

definition validate_type :: "pyval \<Rightarrow> error + pyval" where
  "validate_type v =
     (case in_str_set v [''strategy'', ''tool_template'', ''pitfall''] of
        Inl e \<Rightarrow> Inl e
      | Inr ok \<Rightarrow> if \<not> ok then Inr (PStr ''strategy'') else Inr v)"

definition validate_confidence :: "(string \<Rightarrow> pyfloat option) \<Rightarrow> pyval \<Rightarrow> error + pyfloat" where
  "validate_confidence fos v =
     (case py_float fos v of
        Inl ValueError \<Rightarrow> Inr (Finite (1 / 2))
      | Inl TypeError \<Rightarrow> Inr (Finite (1 / 2))
      | Inl e \<Rightarrow> Inl e
      | Inr conf \<Rightarrow>
          if float_lt conf (Finite 0) then Inr (Finite 0)
          else if float_lt (Finite 1) conf then Inr (Finite 1)
          else Inr conf)"

text \<open>
  The field \<^verbatim>\<open>confidence\<close> is declared with \<^verbatim>\<open>ge=0.0, le=1.0\<close>: after the validator,
  pydantic refuses a value outside these bounds.
\<close>

definition confidence_field :: "(string \<Rightarrow> pyfloat option) \<Rightarrow> pyval \<Rightarrow> error + pyfloat" where
  "confidence_field fos v =
     (case validate_confidence fos v of
        Inl e \<Rightarrow> Inl e
      | Inr c \<Rightarrow>
          if float_le (Finite 0) c \<and> float_le c (Finite 1) then Inr c else Inl ValidationError)"

section \<open>Classification policy (agents/curator.py, CuratorAgent.curate)\<close>

text \<open>
  \<open>curate\<close> is modelled from the point where the model's answer has been parsed:
  \<open>parsed\<close> is the result of \<^verbatim>\<open>json.loads\<close>, \<open>None\<close> when it raised JSONDecodeError.
  The constructor \<^verbatim>\<open>DeltaUpdate(**delta_data)\<close> validates \<^verbatim>\<open>action\<close> and
  \<^verbatim>\<open>target_memory\<close> against their Literal types; the validation of the remaining fields
  by pydantic is the parameter \<open>rest\<close>, which returns \<open>None\<close> when it fails.
\<close>

definition fallback :: "string \<Rightarrow> delta_update" where
  "fallback why =
     \<lparr>action = No_action, target_rule_id = None, new_rule = None, update_fields = None,
      reason = why, target_memory = Some Detection\<rparr>"

definition action_of :: "pyval \<Rightarrow> action option" where
  "action_of v =
     (if v = PStr ''add_rule'' then Some Add_rule
      else if v = PStr ''update_rule'' then Some Update_rule
      else if v = PStr ''deprecate_rule'' then Some Deprecate_rule
      else if v = PStr ''refine_rule'' then Some Refine_rule
      else if v = PStr ''no_action'' then Some No_action
      else None)"

definition memory_of :: "pyval \<Rightarrow> memory option option" where
  "memory_of v =
     (if v = PNone then Some None
      else if v = PStr ''detection'' then Some (Some Detection)
      else if v = PStr ''trust'' then Some (Some Trust)
      else None)"

definition DeltaUpdate ::
  "((string \<times> pyval) list \<Rightarrow> (string option \<times> rule option \<times> assignment list option \<times> string) option)
   \<Rightarrow> (string \<times> pyval) list \<Rightarrow> error + delta_update" where
  "DeltaUpdate rest d =
     (if \<not> dict_has d ''action'' then Inl ValidationError
      else case action_of (dict_get d ''action'') of
        None \<Rightarrow> Inl ValidationError
      | Some a \<Rightarrow>
         (case (if dict_has d ''target_memory'' then memory_of (dict_get d ''target_memory'')
                else Some (Some Detection)) of
            None \<Rightarrow> Inl ValidationError
          | Some m \<Rightarrow>
             (case rest d of
                None \<Rightarrow> Inl ValidationError
              | Some (t, n, u, r) \<Rightarrow>
                  Inr \<lparr>action = a, target_rule_id = t, new_rule = n, update_fields = u,
                       reason = r, target_memory = m\<rparr>)))"

text \<open>Lines 61 to 69: the new rule, when present, gets its provenance and a valid type.\<close>

definition supplement_new_rule ::
  "(string \<times> pyval) list \<Rightarrow> string \<Rightarrow> string \<Rightarrow> error + (string \<times> pyval) list" where
  "supplement_new_rule d case_id now_iso =
     (if truthy (dict_get d ''new_rule'') then
        (case dict_get d ''new_rule'' of
           PDict nr \<Rightarrow>
             (let nr1 = dict_set nr ''created_from'' (PStr case_id);
                  nr2 = dict_set nr1 ''created_at'' (PStr now_iso);
                  nr3 = (if \<not> in_str_list (dict_get nr2 ''type'') [''strategy'', ''tool_template'', ''pitfall'']
                         then dict_set nr2 ''type'' (PStr ''strategy'') else nr2)
              in Inr (dict_set d ''new_rule'' (PDict nr3)))
         | _ \<Rightarrow> Inl TypeError)
      else Inr d)"

text \<open>Lines 75 to 87: the target memory follows from the action and the verdict.\<close>

definition classify :: "(string \<times> pyval) list \<Rightarrow> string \<Rightarrow> (string \<times> pyval) list" where
  "classify d verdict_value =
     (if in_str_list (dict_get d ''action'') [''add_rule'', ''refine_rule'', ''update_rule'', ''deprecate_rule'']
      then (let target = (if verdict_value = ''True'' then ''trust'' else ''detection'')
            in dict_set d ''target_memory'' (PStr target))
      else dict_set d ''target_memory'' (PStr ''detection''))"

definition curate ::
  "((string \<times> pyval) list \<Rightarrow> (string option \<times> rule option \<times> assignment list option \<times> string) option)
   \<Rightarrow> pyval option \<Rightarrow> string \<Rightarrow> string \<Rightarrow> string \<Rightarrow> delta_update" where
  "curate rest parsed case_id now_iso verdict_value =
     (case parsed of
        None \<Rightarrow> fallback ''JSON parsing failed''
      | Some (PDict d) \<Rightarrow>
          (case supplement_new_rule d case_id now_iso of
             Inl e \<Rightarrow> fallback ''Curation error''
           | Inr d1 \<Rightarrow>
              (case DeltaUpdate rest (classify d1 verdict_value) of
                 Inl e \<Rightarrow> fallback ''Curation error''
               | Inr delta \<Rightarrow> delta))
      | Some _ \<Rightarrow> fallback ''Curation error'')"

section \<open>Properties\<close>

subsection \<open>Dictionaries\<close>

lemma map_of_dict_set: "map_of (dict_set d k v) = (map_of d)(k \<mapsto> v)"
  by (induction d) (auto simp: fun_eq_iff)

lemma dict_get_set: "dict_get (dict_set d k v) k' = (if k' = k then v else dict_get d k')"
  by (simp add: dict_get_def map_of_dict_set)

lemma dict_has_set: "dict_has (dict_set d k v) k' = (k' = k \<or> dict_has d k')"
  by (simp add: dict_has_def map_of_dict_set)

subsection \<open>Classification policy\<close>

lemma classify_action: "dict_get (classify d v) ''action'' = dict_get d ''action''"
  by (simp add: classify_def dict_get_set Let_def)

lemma classify_target:
  "dict_get (classify d v) ''target_memory'' =
     PStr (if in_str_list (dict_get d ''action'')
                [''add_rule'', ''refine_rule'', ''update_rule'', ''deprecate_rule''] \<and> v = ''True''
           then ''trust'' else ''detection'')"
  by (simp add: classify_def dict_get_set Let_def)

lemma classify_has_target: "dict_has (classify d v) ''target_memory''"
  by (simp add: classify_def dict_has_set Let_def)

lemma DeltaUpdate_classify:
  assumes "DeltaUpdate rest (classify d v) = Inr delta"
  shows "target_memory delta =
           Some (if action delta \<noteq> No_action \<and> v = ''True'' then Trust else Detection)"
proof -
  obtain a where a: "action_of (dict_get d ''action'') = Some a" and act: "action delta = a"
    using assms
    by (auto simp: DeltaUpdate_def classify_action split: if_splits option.splits)
  have m: "memory_of (dict_get (classify d v) ''target_memory'') = Some (target_memory delta)"
    using assms
    by (auto simp: DeltaUpdate_def classify_has_target split: if_splits option.splits)
  have "in_str_list (dict_get d ''action'')
          [''add_rule'', ''refine_rule'', ''update_rule'', ''deprecate_rule''] = (a \<noteq> No_action)"
    using a by (auto simp: action_of_def in_str_list_def split: if_splits)
  then show ?thesis
    using m act by (auto simp: classify_target memory_of_def)
qed

text \<open>
  C7. Whatever the model answered: when the returned Update Request is not
  \<open>no_action\<close>, its target is the trust partition if the verdict is the literal
  \<^verbatim>\<open>"True"\<close> and the detection partition for every other verdict; a \<open>no_action\<close>
  request targets the detection partition whatever the verdict.
\<close>

theorem curate_routing:
  "target_memory (curate rest parsed case_id now_iso verdict_value) =
     Some (if action (curate rest parsed case_id now_iso verdict_value) \<noteq> No_action
              \<and> verdict_value = ''True''
           then Trust else Detection)"
proof (cases "\<exists>d d1 delta. parsed = Some (PDict d)
                \<and> supplement_new_rule d case_id now_iso = Inr d1
                \<and> DeltaUpdate rest (classify d1 verdict_value) = Inr delta")
  case True
  then obtain d d1 delta where p: "parsed = Some (PDict d)"
    and s: "supplement_new_rule d case_id now_iso = Inr d1"
    and c: "DeltaUpdate rest (classify d1 verdict_value) = Inr delta"
    by blast
  have "curate rest parsed case_id now_iso verdict_value = delta"
    using p s c by (simp add: curate_def)
  then show ?thesis
    using DeltaUpdate_classify [OF c] by simp
next
  case False
  then have "\<exists>why. curate rest parsed case_id now_iso verdict_value = fallback why"
    by (auto simp: curate_def split: option.splits pyval.splits sum.splits)
  then show ?thesis
    by (auto simp: fallback_def)
qed

theorem curate_routing_witness:
  "curate (\<lambda>d. Some (Some ''shr-00001'', None, None, ''harmful''))
      (Some (PDict [(''action'', PStr ''deprecate_rule''), (''target_rule_id'', PStr ''shr-00001''),
                    (''reason'', PStr ''harmful'')]))
      ''case-1'' ''2025-01-01T00:00:00'' ''True''
   = \<lparr>action = Deprecate_rule, target_rule_id = Some ''shr-00001'', new_rule = None,
      update_fields = None, reason = ''harmful'', target_memory = Some Trust\<rparr>
   \<and> target_memory (curate (\<lambda>d. Some (Some ''shr-00001'', None, None, ''harmful''))
      (Some (PDict [(''action'', PStr ''deprecate_rule''), (''target_rule_id'', PStr ''shr-00001''),
                    (''reason'', PStr ''harmful'')]))
      ''case-1'' ''2025-01-01T00:00:00'' ''True'') = Some Trust"
  using curate_routing [of "\<lambda>d. Some (Some ''shr-00001'', None, None, ''harmful'')"
      "Some (PDict [(''action'', PStr ''deprecate_rule''), (''target_rule_id'', PStr ''shr-00001''),
                    (''reason'', PStr ''harmful'')])"
      "''case-1''" "''2025-01-01T00:00:00''" "''True''"]
  by (simp add: curate_def supplement_new_rule_def dict_get_def classify_def in_str_list_def
      DeltaUpdate_def dict_has_def action_of_def memory_of_def)

end
